theory Spec2Isabelle
  imports Complex_Main
begin

section \<open>The blink monitor of app.py\<close>

text \<open>
  The program is one script: module-level session variables and a \<open>while True\<close> loop that
  handles one camera frame per iteration. The session variables become the record
  \<open>session\<close>, the loop body becomes \<open>frame\<close>, and the loop becomes \<open>run\<close> over the list
  of frame inputs (the clock reading and the detector's face list).

  Python floats (clock readings, distances, the window mean) are modelled as exact reals;
  Python ints as \<open>int\<close>. What the script draws on the image is left out; the values it
  shows (rate estimate, status, plotted ratio) are kept in the frame's result. The two
  ways out of the loop (a camera read that fails, the \<open>q\<close> key with its final save) are
  not part of \<open>frame\<close>: \<open>run\<close> ends when the frames end or when one raises.
\<close>

subsection \<open>Data\<close>

type_synonym point = "int \<times> int"
type_synonym face = "point list"
type_synonym colour = "int \<times> int \<times> int"

text \<open>Exceptions of class \<open>Exception\<close> that the modelled code can meet.\<close>

datatype py_error = ZeroDivisionError | IndexError | StoreError string

definition HEALTHY_BLINK_RATE_MIN :: int where
  "HEALTHY_BLINK_RATE_MIN = 12"

definition HEALTHY_BLINK_RATE_MAX :: int where
  "HEALTHY_BLINK_RATE_MAX = 20"

definition OPTIMAL_BLINK_RATE :: int where
  "OPTIMAL_BLINK_RATE = 16"

text \<open>The three status labels of \<open>getBlinkHealthStatus\<close>, under the names the
  specification gives them.\<close>

definition TOO_LOW :: string where
  "TOO_LOW = ''TOO LOW - Increase blinking!''"

definition TOO_HIGH :: string where
  "TOO_HIGH = ''TOO HIGH - Relax your eyes''"

definition HEALTHY :: string where
  "HEALTHY = ''HEALTHY RATE - Keep it up!''"

text \<open>The session variables of the script (lines 70-73 and 127-130).
  \<open>blinksInLastMinute\<close> is never read or written after its initialisation and is left out.\<close>

record session =
  sessionStartTime :: real
  lastMinuteCheck :: real
  currentMinuteBlinks :: int
  ratioList :: "int list"
  blinkCounter :: int
  counter :: int
  color :: colour

definition initial :: "real \<Rightarrow> real \<Rightarrow> session" where
  "initial t0 t1 =
     \<lparr> sessionStartTime = t0, lastMinuteCheck = t1, currentMinuteBlinks = 0,
       ratioList = [], blinkCounter = 0, counter = 0, color = (255, 0, 255) \<rparr>"

subsection \<open>Classification (lines 75-82)\<close>

text \<open>Every call in the script passes an int: the minute count, or a rate cut by \<open>int()\<close>.\<close>

definition getBlinkHealthStatus :: "int \<Rightarrow> string \<times> colour" where
  "getBlinkHealthStatus blinksPerMinute =
     (if blinksPerMinute < HEALTHY_BLINK_RATE_MIN then
        (''TOO LOW - Increase blinking!'', (0, 0, 255))
      else if blinksPerMinute > HEALTHY_BLINK_RATE_MAX then
        (''TOO HIGH - Relax your eyes'', (0, 165, 255))
      else
        (''HEALTHY RATE - Keep it up!'', (0, 255, 0)))"

subsection \<open>Persistence (lines 84-116)\<close>

text \<open>The document built inside the \<open>try\<close> block. The three time stamps come from
  \<open>datetime.now()\<close> and are left out.\<close>

record blinkData =
  bd_userName :: string
  bd_blinksPerMinute :: int
  bd_healthStatus :: string
  bd_totalBlinks :: int
  bd_sessionDurationMinutes :: real
  bd_optimalRate :: int
  bd_type :: string

text \<open>Python's \<open>round(x, 2)\<close>, over exact reals: to the nearest hundredth, ties to even.\<close>

definition round_half_even :: "real \<Rightarrow> int" where
  "round_half_even y =
     (let f = \<lfloor>y\<rfloor>; d = y - of_int f in
      if d < 1 / 2 then f else if d > 1 / 2 then f + 1
      else if even f then f else f + 1)"

definition round2 :: "real \<Rightarrow> real" where
  "round2 x = of_int (round_half_even (x * 100)) / 100"

text \<open>
  The Firestore client \<open>db\<close>: absent (\<open>None\<close>) or a store. A store is what
  \<open>db.collection('blink_monitoring').add(blinkData)\<close> followed by \<open>docRef[1].id\<close> does
  with a document: it raises, or it yields the document id.
\<close>

type_synonym firestore = "blinkData \<Rightarrow> py_error + string"

definition blink_document :: "string \<Rightarrow> int \<Rightarrow> string \<Rightarrow> int \<Rightarrow> real \<Rightarrow> blinkData" where
  "blink_document userName blinksPerMinute status totalBlinks sessionDuration =
     \<lparr> bd_userName = userName, bd_blinksPerMinute = blinksPerMinute,
       bd_healthStatus = status, bd_totalBlinks = totalBlinks,
       bd_sessionDurationMinutes = round2 (sessionDuration / 60),
       bd_optimalRate = OPTIMAL_BLINK_RATE, bd_type = ''blink_monitoring'' \<rparr>"

text \<open>The result is \<open>Inl\<close> where the call would leave by an exception and \<open>Inr\<close> of the
  returned value otherwise. \<open>except Exception\<close> turns every exception of the \<open>try\<close> block
  into the return value \<open>False\<close>.\<close>

definition saveBlinkDataToFirebase ::
  "firestore option \<Rightarrow> string \<Rightarrow> int \<Rightarrow> string \<Rightarrow> int \<Rightarrow> real \<Rightarrow> py_error + bool" where
  "saveBlinkDataToFirebase db userName blinksPerMinute status totalBlinks sessionDuration =
     (case db of
        None \<Rightarrow> Inr False
      | Some store \<Rightarrow>
          (case store (blink_document userName blinksPerMinute status totalBlinks
                         sessionDuration) of
             Inr docId \<Rightarrow> Inr True
           | Inl e \<Rightarrow> Inr False))"

subsection \<open>The minute check (lines 151-165)\<close>

text \<open>The fixed surroundings of the loop: the name typed in at start-up and the
  Firestore client.\<close>

record env =
  userName :: string
  db :: "firestore option"

text \<open>One call of \<open>saveBlinkDataToFirebase\<close> as the loop makes it: the arguments handed
  over and the value returned.\<close>

record save_call =
  sc_userName :: string
  sc_blinksPerMinute :: int
  sc_status :: string
  sc_totalBlinks :: int
  sc_sessionDuration :: real
  sc_returned :: bool

definition minute_check :: "env \<Rightarrow> real \<Rightarrow> session \<Rightarrow> py_error + session \<times> save_call option" where
  "minute_check e currentTime s =
     (if currentTime - lastMinuteCheck s \<ge> 60 then
        (let sessionDuration = currentTime - sessionStartTime s;
             blinksPerMinute = currentMinuteBlinks s;
             healthStatus = fst (getBlinkHealthStatus blinksPerMinute)
         in case saveBlinkDataToFirebase (db e) (userName e) blinksPerMinute healthStatus
                   (blinkCounter s) sessionDuration of
              Inl err \<Rightarrow> Inl err
            | Inr ret \<Rightarrow>
                Inr (s\<lparr> lastMinuteCheck := currentTime, currentMinuteBlinks := 0 \<rparr>,
                     Some \<lparr> sc_userName = userName e, sc_blinksPerMinute = blinksPerMinute,
                            sc_status = healthStatus, sc_totalBlinks = blinkCounter s,
                            sc_sessionDuration = sessionDuration, sc_returned = ret \<rparr>))
      else Inr (s, None))"

subsection \<open>The ratio and its window (lines 167-191)\<close>

definition idList :: "nat list" where
  "idList = [22, 23, 24, 26, 110, 157, 158, 159, 160, 161, 130, 243]"

text \<open>cvzone's \<open>findDistance\<close> (a library call): \<open>math.hypot(x2 - x1, y2 - y1)\<close>.\<close>

definition findDistance :: "point \<Rightarrow> point \<Rightarrow> real" where
  "findDistance p1 p2 =
     (case p1 of (x1, y1) \<Rightarrow> case p2 of (x2, y2) \<Rightarrow>
        sqrt (of_int ((x2 - x1)\<^sup>2 + (y2 - y1)\<^sup>2)))"

text \<open>Python's \<open>int(x)\<close> on a float: truncation towards zero.\<close>

definition py_int :: "real \<Rightarrow> int" where
  "py_int x = (if x \<ge> 0 then \<lfloor>x\<rfloor> else \<lceil>x\<rceil>)"

text \<open>Lines 170-186. The drawing loop reads \<open>face[id]\<close> for every id of \<open>idList\<close>, so a
  face list too short for one of them raises IndexError before anything is computed; the
  four points of the ratio are among them.\<close>

definition eye_ratio :: "face \<Rightarrow> py_error + int" where
  "eye_ratio face =
     (if \<not> list_all (\<lambda>i. i < length face) idList then Inl IndexError
      else
        (let leftUp = face ! 159; leftDown = face ! 23;
             leftLeft = face ! 130; leftRight = face ! 243;
             lenghtVer = findDistance leftUp leftDown;
             lenghtHor = findDistance leftLeft leftRight
         in if lenghtHor = 0 then Inl ZeroDivisionError
            else Inr (py_int ((lenghtVer / lenghtHor) * 100))))"

text \<open>Lines 187-190: \<open>append\<close>, then \<open>pop(0)\<close> when the list has more than 3 entries.\<close>

definition push_ratio :: "int \<Rightarrow> int list \<Rightarrow> int list" where
  "push_ratio ratio rl =
     (let rl' = rl @ [ratio] in if length rl' > 3 then tl rl' else rl')"

text \<open>Line 191: \<open>sum(ratioList) / len(ratioList)\<close>.\<close>

definition mean :: "int list \<Rightarrow> py_error + real" where
  "mean rl =
     (if length rl = 0 then Inl ZeroDivisionError
      else Inr (of_int (sum_list rl) / of_nat (length rl)))"

subsection \<open>Blink detection and debounce (lines 193-203)\<close>

definition blink_update :: "real \<Rightarrow> session \<Rightarrow> session" where
  "blink_update ratioAvg s =
     (let s1 = (if ratioAvg < 35 \<and> counter s = 0 then
                  s\<lparr> blinkCounter := blinkCounter s + 1,
                     currentMinuteBlinks := currentMinuteBlinks s + 1,
                     counter := 1, color := (0, 200, 0) \<rparr>
                else s)
      in if counter s1 \<noteq> 0 then
           (let s2 = s1\<lparr> counter := counter s1 + 1 \<rparr>
            in if counter s2 > 10 then s2\<lparr> counter := 0, color := (255, 0, 255) \<rparr> else s2)
         else s1)"

subsection \<open>The rate shown on screen (lines 206-211)\<close>

definition estimatedBlinksPerMinute :: "real \<Rightarrow> session \<Rightarrow> int" where
  "estimatedBlinksPerMinute currentTime s =
     (let sessionDuration = currentTime - sessionStartTime s in
      if sessionDuration \<ge> 30 then
        py_int (of_int (blinkCounter s) / (sessionDuration / 60))
      else
        py_int ((of_int (blinkCounter s) / max (sessionDuration / 60) 0.5) * 0.5))"

subsection \<open>One iteration of the loop (lines 145-244)\<close>

text \<open>What the frame shows when a face is there: the rate estimate, its status and
  colour, and the smoothed ratio handed to the plot.\<close>

record shown =
  sh_rate :: int
  sh_status :: string
  sh_colour :: colour
  sh_ratioAvg :: real

record frame_result =
  state :: session
  persisted :: "save_call option"
  display :: "shown option"

definition face_update :: "real \<Rightarrow> face \<Rightarrow> session \<Rightarrow> py_error + session \<times> shown" where
  "face_update currentTime face s =
     (case eye_ratio face of
        Inl err \<Rightarrow> Inl err
      | Inr ratio \<Rightarrow>
          (let s1 = s\<lparr> ratioList := push_ratio ratio (ratioList s) \<rparr> in
           case mean (ratioList s1) of
             Inl err \<Rightarrow> Inl err
           | Inr ratioAvg \<Rightarrow>
               (let s2 = blink_update ratioAvg s1;
                    est = estimatedBlinksPerMinute currentTime s2;
                    hs = getBlinkHealthStatus est
                in Inr (s2, \<lparr> sh_rate = est, sh_status = fst hs, sh_colour = snd hs,
                              sh_ratioAvg = ratioAvg \<rparr>))))"

definition frame :: "env \<Rightarrow> real \<Rightarrow> face list \<Rightarrow> session \<Rightarrow> py_error + frame_result" where
  "frame e currentTime faces s =
     (case minute_check e currentTime s of
        Inl err \<Rightarrow> Inl err
      | Inr (s1, rec) \<Rightarrow>
          (case faces of
             [] \<Rightarrow> Inr \<lparr> state = s1, persisted = rec, display = None \<rparr>
           | face # _ \<Rightarrow>
               (case face_update currentTime face s1 of
                  Inl err \<Rightarrow> Inl err
                | Inr (s2, d) \<Rightarrow> Inr \<lparr> state = s2, persisted = rec, display = Some d \<rparr>)))"

text \<open>The loop over the frames that arrive; an exception ends it.\<close>

fun run :: "env \<Rightarrow> session \<Rightarrow> (real \<times> face list) list \<Rightarrow> py_error + session" where
  "run e s [] = Inr s"
| "run e s ((currentTime, faces) # rest) =
     (case frame e currentTime faces s of
        Inl err \<Rightarrow> Inl err
      | Inr r \<Rightarrow> run e (state r) rest)"

text \<open>The number of frames of an input list on which the detector found a face.\<close>

definition face_frames :: "(real \<times> face list) list \<Rightarrow> nat" where
  "face_frames inputs = length (filter (\<lambda>(t, faces). faces \<noteq> []) inputs)"

subsection \<open>Test inputs\<close>

text \<open>A session without Firestore (the key file is missing), and a face whose landmarks
  all sit at the origin except the lower eyelid (landmark 23) at \<open>(0, v)\<close> and the inner
  eye corner (landmark 243) at \<open>(h, 0)\<close>: the eye is \<open>v\<close> pixels open and \<open>h\<close> pixels wide.\<close>

definition offline :: env where
  "offline = \<lparr> userName = ''Anonymous'', db = None \<rparr>"

definition eye :: "int \<Rightarrow> int \<Rightarrow> face" where
  "eye v h = (replicate 244 (0, 0))[23 := (0, v), 243 := (h, 0)]"

text \<open>A store whose write fails, and one that accepts every document.\<close>

definition failing_store :: firestore where
  "failing_store doc = Inl (StoreError ''deadline exceeded'')"

definition working_store :: firestore where
  "working_store doc = Inr ''doc-1''"

section \<open>Theorems\<close>

subsection \<open>Auxiliary facts\<close>

lemma save_returns: "\<exists>b. saveBlinkDataToFirebase d u bpm st tot dur = Inr b"
  by (auto simp add: saveBlinkDataToFirebase_def split: option.split sum.split)

lemma minute_check_Inr:
  "minute_check e t s =
     Inr (if t - lastMinuteCheck s \<ge> 60 then
            (s\<lparr> lastMinuteCheck := t, currentMinuteBlinks := 0 \<rparr>,
             Some \<lparr> sc_userName = userName e, sc_blinksPerMinute = currentMinuteBlinks s,
                    sc_status = fst (getBlinkHealthStatus (currentMinuteBlinks s)),
                    sc_totalBlinks = blinkCounter s,
                    sc_sessionDuration = t - sessionStartTime s,
                    sc_returned = (case saveBlinkDataToFirebase (db e) (userName e) (currentMinuteBlinks s)
                        (fst (getBlinkHealthStatus (currentMinuteBlinks s))) (blinkCounter s)
                        (t - sessionStartTime s) of Inr b \<Rightarrow> b | Inl _ \<Rightarrow> False) \<rparr>)
          else (s, None))"
  using save_returns [of "db e" "userName e" "currentMinuteBlinks s"
      "fst (getBlinkHealthStatus (currentMinuteBlinks s))" "blinkCounter s" "t - sessionStartTime s"]
  by (auto simp add: minute_check_def Let_def)

lemma blink_update_blink:
  "ratioAvg < 35 \<Longrightarrow> counter s = 0 \<Longrightarrow>
   blink_update ratioAvg s =
     s\<lparr> blinkCounter := blinkCounter s + 1, currentMinuteBlinks := currentMinuteBlinks s + 1,
        counter := 2, color := (0, 200, 0) \<rparr>"
  by (simp add: blink_update_def Let_def)

lemma blink_update_idle:
  "\<not> ratioAvg < 35 \<Longrightarrow> counter s = 0 \<Longrightarrow> blink_update ratioAvg s = s"
  by (simp add: blink_update_def Let_def)

lemma blink_update_refractory:
  "counter s \<noteq> 0 \<Longrightarrow>
   blink_update ratioAvg s =
     (if counter s + 1 > 10 then s\<lparr> counter := 0, color := (255, 0, 255) \<rparr>
      else s\<lparr> counter := counter s + 1 \<rparr>)"
  by (simp add: blink_update_def Let_def)


lemma minute_check_keeps:
  assumes "minute_check e t s = Inr (s1, rec)"
  shows "counter s1 = counter s" "blinkCounter s1 = blinkCounter s"
    "ratioList s1 = ratioList s" "sessionStartTime s1 = sessionStartTime s"
    "color s1 = color s"
  using assms unfolding minute_check_Inr by (auto split: if_splits)

lemma minute_check_bucket:
  assumes "minute_check e t s = Inr (s1, rec)"
  shows "currentMinuteBlinks s1 = (if t - lastMinuteCheck s \<ge> 60 then 0 else currentMinuteBlinks s)"
    "lastMinuteCheck s1 = (if t - lastMinuteCheck s \<ge> 60 then t else lastMinuteCheck s)"
  using assms unfolding minute_check_Inr by (auto split: if_splits)

lemma frame_no_face:
  assumes "frame e t [] s = Inr r"
  shows "\<exists>s1 rec. minute_check e t s = Inr (s1, rec) \<and> state r = s1 \<and> persisted r = rec
           \<and> display r = None"
  using assms by (auto simp add: frame_def split: sum.splits)

lemma frame_face:
  assumes "frame e t (f # fs) s = Inr r"
  shows "\<exists>s1 rec ratio avg.
           minute_check e t s = Inr (s1, rec) \<and> eye_ratio f = Inr ratio
           \<and> mean (push_ratio ratio (ratioList s1)) = Inr avg
           \<and> state r = blink_update avg (s1\<lparr> ratioList := push_ratio ratio (ratioList s1) \<rparr>)
           \<and> persisted r = rec
           \<and> display r = Some \<lparr> sh_rate = estimatedBlinksPerMinute t (state r),
                 sh_status = fst (getBlinkHealthStatus (estimatedBlinksPerMinute t (state r))),
                 sh_colour = snd (getBlinkHealthStatus (estimatedBlinksPerMinute t (state r))),
                 sh_ratioAvg = avg \<rparr>"
  using assms by (auto simp add: frame_def face_update_def Let_def split: sum.splits)

lemma frame_no_face_counter:
  assumes "frame e t [] s = Inr r"
  shows "counter (state r) = counter s" "blinkCounter (state r) = blinkCounter s"
  using frame_no_face [OF assms] minute_check_keeps by auto

lemma frame_face_refractory:
  assumes "frame e t (f # fs) s = Inr r" and "counter s \<noteq> 0"
  shows "blinkCounter (state r) = blinkCounter s"
    "counter (state r) = (if counter s + 1 > 10 then 0 else counter s + 1)"
proof -
  from frame_face [OF assms(1)] obtain s1 rec ratio avg where
    mc: "minute_check e t s = Inr (s1, rec)" and
    st: "state r = blink_update avg (s1\<lparr> ratioList := push_ratio ratio (ratioList s1) \<rparr>)"
    by blast
  have c: "counter s1 = counter s" and b: "blinkCounter s1 = blinkCounter s"
    using minute_check_keeps [OF mc] by simp_all
  show "blinkCounter (state r) = blinkCounter s"
    using assms(2) b c by (simp add: st blink_update_refractory)
  show "counter (state r) = (if counter s + 1 > 10 then 0 else counter s + 1)"
    using assms(2) c by (simp add: st blink_update_refractory)
qed

lemma face_frames_Nil: "face_frames [] = 0"
  by (simp add: face_frames_def)

lemma face_frames_Cons:
  "face_frames ((t, faces) # rest) = (if faces = [] then 0 else 1) + face_frames rest"
  by (simp add: face_frames_def)

lemma run_Cons_Inr:
  assumes "run e s ((t, faces) # rest) = Inr s'"
  shows "\<exists>r. frame e t faces s = Inr r \<and> run e (state r) rest = Inr s'"
  using assms by (auto split: sum.splits)

lemma run_no_faces:
  "run e s inputs = Inr s' \<Longrightarrow> face_frames inputs = 0 \<Longrightarrow>
   counter s' = counter s \<and> blinkCounter s' = blinkCounter s"
proof (induction inputs arbitrary: s)
  case Nil
  then show ?case by simp
next
  case (Cons a inputs)
  obtain t faces where a: "a = (t, faces)" by (cases a)
  from Cons.prems(1) obtain r where
    fr: "frame e t faces s = Inr r" and rest: "run e (state r) inputs = Inr s'"
    unfolding a using run_Cons_Inr by blast
  from Cons.prems(2) have nf: "faces = []" and ff: "face_frames inputs = 0"
    unfolding a face_frames_Cons by (auto split: if_splits)
  from Cons.IH [OF rest ff] frame_no_face_counter [OF fr [unfolded nf]]
  show ?case by simp
qed

lemma run_refractory:
  "run e s inputs = Inr s' \<Longrightarrow> 0 < counter s \<Longrightarrow>
   counter s + int (face_frames inputs) \<le> 10 \<Longrightarrow>
   counter s' = counter s + int (face_frames inputs) \<and> blinkCounter s' = blinkCounter s"
proof (induction inputs arbitrary: s)
  case Nil
  then show ?case by (simp add: face_frames_Nil)
next
  case (Cons a inputs)
  obtain t faces where a: "a = (t, faces)" by (cases a)
  from Cons.prems(1) obtain r where
    fr: "frame e t faces s = Inr r" and rest: "run e (state r) inputs = Inr s'"
    unfolding a using run_Cons_Inr by blast
  show ?case
  proof (cases faces)
    case Nil
    with fr have k: "counter (state r) = counter s" "blinkCounter (state r) = blinkCounter s"
      using frame_no_face_counter by simp_all
    have "0 < counter (state r)" "counter (state r) + int (face_frames inputs) \<le> 10"
      using Cons.prems(2,3) k Nil by (simp_all add: a face_frames_Cons)
    from Cons.IH [OF rest this] k show ?thesis
      by (simp add: a Nil face_frames_Cons)
  next
    case (Cons f fs)
    have le: "counter s + 1 + int (face_frames inputs) \<le> 10"
      using Cons.prems(3) by (simp add: a Cons face_frames_Cons)
    have "0 \<le> int (face_frames inputs)" by simp
    with le have small: "counter s + 1 \<le> 10" by linarith
    have nz: "counter s \<noteq> 0" using Cons.prems(2) by simp
    from frame_face_refractory [OF fr [unfolded Cons] nz] small
    have k: "blinkCounter (state r) = blinkCounter s" "counter (state r) = counter s + 1"
      by simp_all
    have "0 < counter (state r)" "counter (state r) + int (face_frames inputs) \<le> 10"
      using Cons.prems(2) le k by simp_all
    from Cons.IH [OF rest this] k show ?thesis
      by (simp add: a Cons face_frames_Cons)
  qed
qed

lemma run_refractory_end:
  "run e s inputs = Inr s' \<Longrightarrow> 0 < counter s \<Longrightarrow> counter s \<le> 10 \<Longrightarrow>
   counter s + int (face_frames inputs) = 11 \<Longrightarrow>
   counter s' = 0 \<and> blinkCounter s' = blinkCounter s"
proof (induction inputs arbitrary: s)
  case Nil
  then show ?case by (simp add: face_frames_Nil)
next
  case (Cons a inputs)
  obtain t faces where a: "a = (t, faces)" by (cases a)
  from Cons.prems(1) obtain r where
    fr: "frame e t faces s = Inr r" and rest: "run e (state r) inputs = Inr s'"
    unfolding a using run_Cons_Inr by blast
  show ?case
  proof (cases faces)
    case Nil
    with fr have k: "counter (state r) = counter s" "blinkCounter (state r) = blinkCounter s"
      using frame_no_face_counter by simp_all
    have "0 < counter (state r)" "counter (state r) \<le> 10"
      "counter (state r) + int (face_frames inputs) = 11"
      using Cons.prems(2,3,4) k Nil by (simp_all add: a face_frames_Cons)
    from Cons.IH [OF rest this] k show ?thesis by simp
  next
    case (Cons f fs)
    have eq: "counter s + 1 + int (face_frames inputs) = 11"
      using Cons.prems(4) by (simp add: a Cons face_frames_Cons)
    have nz: "counter s \<noteq> 0" using Cons.prems(2) by simp
    note k = frame_face_refractory [OF fr [unfolded Cons] nz]
    show ?thesis
    proof (cases "counter s = 10")
      case True
      then have "face_frames inputs = 0" using eq by simp
      from run_no_faces [OF rest this] k True show ?thesis by simp
    next
      case False
      with Cons.prems(3) have small: "counter s + 1 \<le> 10" by simp
      with k have k': "blinkCounter (state r) = blinkCounter s"
        "counter (state r) = counter s + 1" by simp_all
      have "0 < counter (state r)" "counter (state r) \<le> 10"
        "counter (state r) + int (face_frames inputs) = 11"
        using Cons.prems(2) eq k' small by simp_all
      from Cons.IH [OF rest this] k' show ?thesis by simp
    qed
  qed
qed

lemma eye_ratio_eye:
  "h \<noteq> 0 \<Longrightarrow> eye_ratio (eye v h) = Inr (py_int (\<bar>of_int v\<bar> / \<bar>of_int h\<bar> * 100))"
  by (simp add: eye_ratio_def eye_def idList_def findDistance_def Let_def)

lemma closed_eye: "eye_ratio (eye 0 10) = Inr 0"
  by (simp add: eye_ratio_eye py_int_def)

lemma replicate_numeral_Cons: "replicate (numeral k) x = x # replicate (pred_numeral k) x"
  by (simp add: numeral_eq_Suc)

lemma blink_update_counts:
  "blinkCounter (blink_update a s) - blinkCounter s =
     currentMinuteBlinks (blink_update a s) - currentMinuteBlinks s"
  "blinkCounter s \<le> blinkCounter (blink_update a s)"
  "sessionStartTime (blink_update a s) = sessionStartTime s"
  "lastMinuteCheck (blink_update a s) = lastMinuteCheck s"
  "ratioList (blink_update a s) = ratioList s"
  by (simp_all add: blink_update_def Let_def)

lemma blink_update_counter_range:
  "0 \<le> counter s \<Longrightarrow> counter s \<le> 10 \<Longrightarrow>
   0 \<le> counter (blink_update a s) \<and> counter (blink_update a s) \<le> 10"
  by (simp add: blink_update_def Let_def)

lemma frame_counts:
  assumes "frame e t faces s = Inr r"
    and "0 \<le> currentMinuteBlinks s" and "currentMinuteBlinks s \<le> blinkCounter s"
  shows "0 \<le> currentMinuteBlinks (state r) \<and> currentMinuteBlinks (state r) \<le> blinkCounter (state r)"
proof (cases faces)
  case Nil
  from frame_no_face [OF assms(1) [unfolded Nil]] obtain s1 rec where
    mc: "minute_check e t s = Inr (s1, rec)" and st: "state r = s1" by blast
  from minute_check_keeps(2) [OF mc] minute_check_bucket(1) [OF mc] assms(2,3)
  show ?thesis by (simp add: st)
next
  case (Cons f fs)
  from frame_face [OF assms(1) [unfolded Cons]] obtain s1 rec ratio avg where
    mc: "minute_check e t s = Inr (s1, rec)" and
    st: "state r = blink_update avg (s1\<lparr> ratioList := push_ratio ratio (ratioList s1) \<rparr>)"
    by blast
  let ?s2 = "s1\<lparr> ratioList := push_ratio ratio (ratioList s1) \<rparr>"
  have inv: "0 \<le> currentMinuteBlinks ?s2" "currentMinuteBlinks ?s2 \<le> blinkCounter ?s2"
    using minute_check_keeps(2) [OF mc] minute_check_bucket(1) [OF mc] assms(2,3) by simp_all
  from blink_update_counts(1,2) [where a = avg and s = "?s2"] inv show ?thesis
    unfolding st by linarith
qed

lemma frame_counter_range:
  assumes "frame e t faces s = Inr r" and "0 \<le> counter s" and "counter s \<le> 10"
  shows "0 \<le> counter (state r) \<and> counter (state r) \<le> 10"
proof (cases faces)
  case Nil
  from frame_no_face_counter(1) [OF assms(1) [unfolded Nil]] assms(2,3)
  show ?thesis by simp
next
  case (Cons f fs)
  from frame_face [OF assms(1) [unfolded Cons]] obtain s1 rec ratio avg where
    mc: "minute_check e t s = Inr (s1, rec)" and
    st: "state r = blink_update avg (s1\<lparr> ratioList := push_ratio ratio (ratioList s1) \<rparr>)"
    by blast
  let ?s2 = "s1\<lparr> ratioList := push_ratio ratio (ratioList s1) \<rparr>"
  have "0 \<le> counter ?s2" "counter ?s2 \<le> 10"
    using minute_check_keeps(1) [OF mc] assms(2,3) by simp_all
  from blink_update_counter_range [OF this] show ?thesis
    unfolding st .
qed

lemma run_counts:
  "run e s inputs = Inr s' \<Longrightarrow> 0 \<le> currentMinuteBlinks s \<Longrightarrow>
   currentMinuteBlinks s \<le> blinkCounter s \<Longrightarrow>
   0 \<le> currentMinuteBlinks s' \<and> currentMinuteBlinks s' \<le> blinkCounter s'"
proof (induction inputs arbitrary: s)
  case Nil
  then show ?case by simp
next
  case (Cons a inputs)
  obtain t faces where a: "a = (t, faces)" by (cases a)
  from Cons.prems(1) obtain r where
    fr: "frame e t faces s = Inr r" and rest: "run e (state r) inputs = Inr s'"
    unfolding a using run_Cons_Inr by blast
  from frame_counts [OF fr Cons.prems(2,3)] Cons.IH [OF rest] show ?case by simp
qed

lemma run_counter_range:
  "run e s inputs = Inr s' \<Longrightarrow> 0 \<le> counter s \<Longrightarrow> counter s \<le> 10 \<Longrightarrow>
   0 \<le> counter s' \<and> counter s' \<le> 10"
proof (induction inputs arbitrary: s)
  case Nil
  then show ?case by simp
next
  case (Cons a inputs)
  obtain t faces where a: "a = (t, faces)" by (cases a)
  from Cons.prems(1) obtain r where
    fr: "frame e t faces s = Inr r" and rest: "run e (state r) inputs = Inr s'"
    unfolding a using run_Cons_Inr by blast
  from frame_counter_range [OF fr Cons.prems(2,3)] Cons.IH [OF rest] show ?case by simp
qed

lemmas frame_eval = frame_def face_update_def minute_check_Inr closed_eye initial_def
  push_ratio_def mean_def blink_update_def Let_def estimatedBlinksPerMinute_def py_int_def
  getBlinkHealthStatus_def replicate_numeral_Cons HEALTHY_BLINK_RATE_MIN_def HEALTHY_BLINK_RATE_MAX_def




lemma push_ratio_length: "length w \<le> 3 \<Longrightarrow> length (push_ratio r w) \<le> 3"
  by (simp add: push_ratio_def Let_def)

lemma push_ratio_window:
  "push_ratio r (drop (length rs - 3) rs) = drop (length (rs @ [r]) - 3) (rs @ [r])"
proof (cases "length rs < 3")
  case True
  then have "length rs - 3 = 0" and "length (rs @ [r]) - 3 = 0" by simp_all
  with True show ?thesis by (simp add: push_ratio_def)
next
  case False
  let ?w = "drop (length rs - 3) rs"
  from False have len: "length ?w = 3" by simp
  then have ne: "?w \<noteq> []" by auto
  from False have k: "length (rs @ [r]) - 3 = Suc (length rs - 3)" by simp
  have "push_ratio r ?w = tl (?w @ [r])"
    using len by (simp add: push_ratio_def)
  also have "\<dots> = tl ?w @ [r]" using ne by simp
  also have "tl ?w = drop (Suc (length rs - 3)) rs"
    by (simp add: drop_Suc tl_drop)
  also have "drop (Suc (length rs - 3)) rs @ [r] = drop (Suc (length rs - 3)) (rs @ [r])"
    using False by simp
  finally show ?thesis unfolding k .
qed

lemma fold_push_ratio: "fold push_ratio rs [] = drop (length rs - 3) rs"
proof (induction rs rule: rev_induct)
  case Nil
  then show ?case by simp
next
  case (snoc r rs)
  then show ?case using push_ratio_window [of r rs] by simp
qed

lemma push_ratio_not_Nil: "push_ratio r w \<noteq> []"
proof -
  have "0 < length (push_ratio r w)"
    by (cases "2 < length w") (auto simp add: push_ratio_def Let_def)
  then show ?thesis by simp
qed

lemma mean_push_ratio:
  "mean (push_ratio r w) =
     Inr (of_int (sum_list (push_ratio r w)) / of_nat (length (push_ratio r w)))"
  using push_ratio_not_Nil [of r w] by (simp add: mean_def)

lemma frame_window:
  assumes "frame e t faces s = Inr r" and "length (ratioList s) \<le> 3"
  shows "length (ratioList (state r)) \<le> 3"
proof (cases faces)
  case Nil
  from frame_no_face [OF assms(1) [unfolded Nil]] minute_check_keeps(3) assms(2)
  show ?thesis by auto
next
  case (Cons f fs)
  from frame_face [OF assms(1) [unfolded Cons]] obtain s1 rec ratio avg where
    mc: "minute_check e t s = Inr (s1, rec)" and
    st: "state r = blink_update avg (s1\<lparr> ratioList := push_ratio ratio (ratioList s1) \<rparr>)"
    by blast
  from push_ratio_length [of "ratioList s1" ratio] assms(2) minute_check_keeps(3) [OF mc]
  show ?thesis by (simp add: st blink_update_counts)
qed

lemma run_window:
  "run e s inputs = Inr s' \<Longrightarrow> length (ratioList s) \<le> 3 \<Longrightarrow> length (ratioList s') \<le> 3"
proof (induction inputs arbitrary: s)
  case Nil
  then show ?case by simp
next
  case (Cons a inputs)
  obtain t faces where a: "a = (t, faces)" by (cases a)
  from Cons.prems(1) obtain r where
    fr: "frame e t faces s = Inr r" and rest: "run e (state r) inputs = Inr s'"
    unfolding a using run_Cons_Inr by blast
  from frame_window [OF fr Cons.prems(2)] Cons.IH [OF rest] show ?case by simp
qed


subsection \<open>The claims\<close>

text \<open>
  C6. Classification depends on the rate alone: a rate below 12 is TOO_LOW, a rate above
  20 is TOO_HIGH, every other rate is HEALTHY, and the three labels are pairwise
  different. In particular 11 is TOO_LOW, 12 and 20 are HEALTHY, 21 is TOO_HIGH. The
  function takes nothing but the rate, so two calls with one rate agree.
\<close>

theorem getBlinkHealthStatus_bands:
  "fst (getBlinkHealthStatus rate) =
     (if rate < 12 then TOO_LOW else if rate > 20 then TOO_HIGH else HEALTHY)
   \<and> TOO_LOW \<noteq> HEALTHY \<and> TOO_HIGH \<noteq> HEALTHY \<and> TOO_LOW \<noteq> TOO_HIGH
   \<and> fst (getBlinkHealthStatus 11) = TOO_LOW
   \<and> fst (getBlinkHealthStatus 12) = HEALTHY
   \<and> fst (getBlinkHealthStatus 20) = HEALTHY
   \<and> fst (getBlinkHealthStatus 21) = TOO_HIGH"
  by (simp add: getBlinkHealthStatus_def HEALTHY_BLINK_RATE_MIN_def
      HEALTHY_BLINK_RATE_MAX_def TOO_LOW_def TOO_HIGH_def HEALTHY_def)

text \<open>
  C1 (amended). A smoothed ratio below 35 that arrives while the debounce counter is 0
  registers exactly one blink: the total count and the current-minute count each grow by 1
  and the counter leaves 0 (it is 2 when lines 193-203 are done). Whatever the camera
  delivers afterwards, as long as at most 9 of the following frames show a face, the total
  count stays where it is: no further blink is registered on the next 9 face frames,
  however low the ratio. Frames without a face and minute resets in between do not matter.
\<close>

theorem blink_registered_once:
  assumes "ratioAvg < 35" and "counter s = 0"
  shows "blinkCounter (blink_update ratioAvg s) = blinkCounter s + 1
    \<and> currentMinuteBlinks (blink_update ratioAvg s) = currentMinuteBlinks s + 1
    \<and> counter (blink_update ratioAvg s) = 2
    \<and> (\<forall>inputs s'. run e (blink_update ratioAvg s) inputs = Inr s' \<and> face_frames inputs \<le> 9
          \<longrightarrow> blinkCounter s' = blinkCounter s + 1)"
proof -
  let ?b = "blink_update ratioAvg s"
  have b: "?b = s\<lparr> blinkCounter := blinkCounter s + 1,
      currentMinuteBlinks := currentMinuteBlinks s + 1, counter := 2, color := (0, 200, 0) \<rparr>"
    using assms by (rule blink_update_blink)
  have c: "counter ?b = 2" and n: "blinkCounter ?b = blinkCounter s + 1"
    and m: "currentMinuteBlinks ?b = currentMinuteBlinks s + 1"
    by (simp_all add: b)
  have "blinkCounter s' = blinkCounter s + 1"
    if r: "run e ?b inputs = Inr s'" and f: "face_frames inputs \<le> 9" for inputs s'
  proof (cases "face_frames inputs = 9")
    case True
    from run_refractory_end [OF r] c True n show ?thesis by simp
  next
    case False
    with f have "counter ?b + int (face_frames inputs) \<le> 10" using c by simp
    from run_refractory [OF r _ this] c n show ?thesis by simp
  qed
  with c n m show ?thesis by blast
qed

text \<open>The theorem at ratio 20 in a fresh session, followed by nine frames of a closed eye.\<close>

theorem blink_registered_once_witness:
  "(20::real) < 35 \<and> counter (initial 0 0) = 0
   \<and> blinkCounter (blink_update 20 (initial 0 0)) = 1
   \<and> currentMinuteBlinks (blink_update 20 (initial 0 0)) = 1
   \<and> counter (blink_update 20 (initial 0 0)) = 2
   \<and> run offline (blink_update 20 (initial 0 0)) (replicate 9 (0, [eye 0 10])) =
       Inr \<lparr> sessionStartTime = 0, lastMinuteCheck = 0, currentMinuteBlinks = 1,
             ratioList = [0, 0, 0], blinkCounter = 1, counter = 0, color = (255, 0, 255) \<rparr>
   \<and> face_frames (replicate 9 (0, [eye 0 10])) \<le> 9"
  using blink_registered_once [of 20 "initial 0 0" offline]
  by (simp add: frame_eval face_frames_def)

text \<open>
  The claim as written speaks of the next 10 face frames. A fresh offline session that sees
  a closed eye (ratio 0) on every frame registers a blink on the first frame and a second
  one on the tenth frame after it.
\<close>

theorem second_blink_on_tenth_frame:
  "frame offline 0 [eye 0 10] (initial 0 0) =
     Inr \<lparr> state = \<lparr> sessionStartTime = 0, lastMinuteCheck = 0, currentMinuteBlinks = 1,
                     ratioList = [0], blinkCounter = 1, counter = 2, color = (0, 200, 0) \<rparr>,
           persisted = None,
           display = Some \<lparr> sh_rate = 1, sh_status = TOO_LOW, sh_colour = (0, 0, 255),
                            sh_ratioAvg = 0 \<rparr> \<rparr>
   \<and> run offline \<lparr> sessionStartTime = 0, lastMinuteCheck = 0, currentMinuteBlinks = 1,
                   ratioList = [0], blinkCounter = 1, counter = 2, color = (0, 200, 0) \<rparr>
         (replicate 10 (0, [eye 0 10])) =
     Inr \<lparr> sessionStartTime = 0, lastMinuteCheck = 0, currentMinuteBlinks = 2,
           ratioList = [0, 0, 0], blinkCounter = 2, counter = 2, color = (0, 200, 0) \<rparr>"
  by (simp add: frame_eval TOO_LOW_def)

text \<open>
  C2 (amended). At every frame boundary of a session the debounce counter lies in
  \<open>[0, 10]\<close>. After the update that registers a blink, the counter is back at exactly 0
  when the 9th following face frame is done, and on none of the face frames before it.
\<close>

theorem debounce_range_and_return:
  "(\<forall>inputs s'. run e (initial t0 t1) inputs = Inr s' \<longrightarrow> 0 \<le> counter s' \<and> counter s' \<le> 10)
   \<and> (ratioAvg < 35 \<and> counter s = 0 \<longrightarrow>
        (\<forall>inputs s'. run e (blink_update ratioAvg s) inputs = Inr s' \<and> face_frames inputs \<le> 9
           \<longrightarrow> (counter s' = 0) = (face_frames inputs = 9)))"
proof (intro conjI allI impI)
  fix inputs s'
  assume "run e (initial t0 t1) inputs = Inr s'"
  from run_counter_range [OF this] show "0 \<le> counter s'" and "counter s' \<le> 10"
    by (simp_all add: initial_def)
next
  fix inputs s'
  assume blink: "ratioAvg < 35 \<and> counter s = 0"
    and r: "run e (blink_update ratioAvg s) inputs = Inr s' \<and> face_frames inputs \<le> 9"
  have c: "counter (blink_update ratioAvg s) = 2"
    using blink by (simp add: blink_update_blink)
  show "(counter s' = 0) = (face_frames inputs = 9)"
  proof (cases "face_frames inputs = 9")
    case True
    from run_refractory_end [of e "blink_update ratioAvg s" inputs s'] r c True
    show ?thesis by simp
  next
    case False
    with r have "counter (blink_update ratioAvg s) + int (face_frames inputs) \<le> 10"
      using c by simp
    from run_refractory [of e "blink_update ratioAvg s" inputs s'] r c this False
    show ?thesis by simp
  qed
qed

text \<open>A fresh session after four closed-eye frames (counter 5), and the nine face frames
  that follow a blink, here with the eye open again.\<close>

theorem debounce_range_and_return_witness:
  "run offline (initial 0 0) (replicate 4 (0, [eye 0 10])) =
     Inr \<lparr> sessionStartTime = 0, lastMinuteCheck = 0, currentMinuteBlinks = 1,
           ratioList = [0, 0, 0], blinkCounter = 1, counter = 5, color = (0, 200, 0) \<rparr>
   \<and> (0::int) \<le> 5 \<and> (5::int) \<le> 10
   \<and> (20::real) < 35 \<and> counter (initial 0 0) = 0
   \<and> run offline (blink_update 20 (initial 0 0)) (replicate 9 (1, [eye 4 10])) =
       Inr \<lparr> sessionStartTime = 0, lastMinuteCheck = 0, currentMinuteBlinks = 1,
             ratioList = [40, 40, 40], blinkCounter = 1, counter = 0, color = (255, 0, 255) \<rparr>
   \<and> face_frames (replicate 9 (1::real, [eye 4 10])) = 9"
  using debounce_range_and_return [of offline 0 0 20 "initial 0 0"]
  by (simp add: frame_eval face_frames_def eye_ratio_eye)

text \<open>
  The claim as written has the counter return to 0 on the 11th frame and not earlier. In a
  fresh offline session the first frame registers the blink, and after nine more face
  frames the counter is 0 again.
\<close>

theorem counter_zero_after_nine_frames:
  "run offline (initial 0 0) (replicate 10 (0, [eye 0 10])) =
     Inr \<lparr> sessionStartTime = 0, lastMinuteCheck = 0, currentMinuteBlinks = 1,
           ratioList = [0, 0, 0], blinkCounter = 1, counter = 0, color = (255, 0, 255) \<rparr>"
  by (simp add: frame_eval)

text \<open>
  C10. On a frame that registers a blink (a face is there, the smoothed ratio it plots is
  below 35, and the counter was 0 when the frame began) the counter is 2 when the frame is
  done: the refractory branch runs in the same frame, after the blink branch has set the
  counter to 1. From there the counter is \<open>2 + n\<close> after \<open>n < 9\<close> further face frames and 0
  after the 9th.
\<close>

theorem blink_frame_counter_two:
  assumes "frame e t faces s = Inr r" and "display r = Some d"
    and "sh_ratioAvg d < 35" and "counter s = 0"
  shows "counter (state r) = 2
    \<and> (\<forall>inputs s'. run e (state r) inputs = Inr s' \<longrightarrow>
         (face_frames inputs < 9 \<longrightarrow> counter s' = 2 + int (face_frames inputs))
         \<and> (face_frames inputs = 9 \<longrightarrow> counter s' = 0))"
proof -
  from assms(1,2) obtain f fs where faces: "faces = f # fs"
    using frame_no_face by (cases faces) fastforce+
  from frame_face [OF assms(1) [unfolded faces]] obtain s1 rec ratio avg where
    mc: "minute_check e t s = Inr (s1, rec)" and
    st: "state r = blink_update avg (s1\<lparr> ratioList := push_ratio ratio (ratioList s1) \<rparr>)" and
    d: "display r = Some \<lparr> sh_rate = estimatedBlinksPerMinute t (state r),
                 sh_status = fst (getBlinkHealthStatus (estimatedBlinksPerMinute t (state r))),
                 sh_colour = snd (getBlinkHealthStatus (estimatedBlinksPerMinute t (state r))),
                 sh_ratioAvg = avg \<rparr>"
    by blast
  from d assms(2,3) have avg: "avg < 35" by auto
  have "counter (s1\<lparr> ratioList := push_ratio ratio (ratioList s1) \<rparr>) = 0"
    using minute_check_keeps(1) [OF mc] assms(4) by simp
  from blink_update_blink [OF avg this] have c: "counter (state r) = 2"
    by (simp add: st)
  have "counter s' = 2 + int (face_frames inputs)"
    if "run e (state r) inputs = Inr s'" and "face_frames inputs < 9" for inputs s'
    using run_refractory [OF that(1)] c that(2) by simp
  moreover have "counter s' = 0"
    if "run e (state r) inputs = Inr s'" and "face_frames inputs = 9" for inputs s'
    using run_refractory_end [OF that(1)] c that(2) by simp
  ultimately show ?thesis using c by blast
qed

text \<open>A half-closed eye (ratio 20) at second 5 of a fresh session, then three more
  frames of it.\<close>

theorem blink_frame_counter_two_witness:
  "frame offline 5 [eye 2 10] (initial 0 0) =
     Inr \<lparr> state = \<lparr> sessionStartTime = 0, lastMinuteCheck = 0, currentMinuteBlinks = 1,
                     ratioList = [20], blinkCounter = 1, counter = 2, color = (0, 200, 0) \<rparr>,
           persisted = None,
           display = Some \<lparr> sh_rate = 1, sh_status = TOO_LOW, sh_colour = (0, 0, 255),
                            sh_ratioAvg = 20 \<rparr> \<rparr>
   \<and> (20::real) < 35 \<and> counter (initial 0 0) = 0
   \<and> run offline \<lparr> sessionStartTime = 0, lastMinuteCheck = 0, currentMinuteBlinks = 1,
                   ratioList = [20], blinkCounter = 1, counter = 2, color = (0, 200, 0) \<rparr>
         (replicate 3 (6, [eye 2 10])) =
       Inr \<lparr> sessionStartTime = 0, lastMinuteCheck = 0, currentMinuteBlinks = 1,
             ratioList = [20, 20, 20], blinkCounter = 1, counter = 5, color = (0, 200, 0) \<rparr>
   \<and> face_frames (replicate 3 (6::real, [eye 2 10])) < 9
   \<and> (5::int) = 2 + int (face_frames (replicate 3 (6::real, [eye 2 10])))"
  using blink_frame_counter_two [of offline 5 "[eye 2 10]" "initial 0 0"
      "\<lparr> state = \<lparr> sessionStartTime = 0, lastMinuteCheck = 0, currentMinuteBlinks = 1,
                     ratioList = [20], blinkCounter = 1, counter = 2, color = (0, 200, 0) \<rparr>,
           persisted = None,
           display = Some \<lparr> sh_rate = 1, sh_status = TOO_LOW, sh_colour = (0, 0, 255),
                            sh_ratioAvg = 20 \<rparr> \<rparr>"
      "\<lparr> sh_rate = 1, sh_status = TOO_LOW, sh_colour = (0, 0, 255), sh_ratioAvg = 20 \<rparr>"]
  by (simp add: frame_eval face_frames_def eye_ratio_eye TOO_LOW_def)

text \<open>
  C8. In every state a session reaches, after any number of frames with or without a face
  and across minute resets, \<open>0 \<le> currentMinuteBlinks \<le> blinkCounter\<close>.
\<close>

theorem blink_counts_ordered:
  "run e (initial t0 t1) inputs = Inr s \<Longrightarrow>
   0 \<le> currentMinuteBlinks s \<and> currentMinuteBlinks s \<le> blinkCounter s"
  using run_counts [of e "initial t0 t1" inputs s] by (simp add: initial_def)

text \<open>A blink at second 0, a frame without a face at second 30, and the minute reset on
  a face frame at second 61.\<close>

theorem blink_counts_ordered_witness:
  "run offline (initial 0 0) [(0, [eye 0 10]), (30, []), (61, [eye 4 10])] =
     Inr \<lparr> sessionStartTime = 0, lastMinuteCheck = 61, currentMinuteBlinks = 0,
           ratioList = [0, 40], blinkCounter = 1, counter = 3, color = (0, 200, 0) \<rparr>
   \<and> (0::int) \<le> 0 \<and> (0::int) \<le> 1"
  using blink_counts_ordered [of offline 0 0 "[(0, [eye 0 10]), (30, []), (61, [eye 4 10])]"]
  by (simp add: frame_eval eye_ratio_eye saveBlinkDataToFirebase_def offline_def)






text \<open>
  C5. The window is a FIFO of capacity 3. Starting from the empty window, after any
  sequence of appends it holds the last three ratios in arrival order (all of them while
  there are fewer), so it never has more than 3 entries, in any state a session reaches.
  The mean after an append never fails and is the sum over the length. The inputs 50, 50,
  20 give the window \<open>[50, 50, 20]\<close> with mean 40; a further 10 evicts the oldest 50 and
  gives \<open>[50, 20, 10]\<close> with mean \<open>80 / 3\<close>, which is 26.67 to two decimals.
\<close>

theorem ratio_window_fifo:
  "length (fold push_ratio rs []) \<le> 3
   \<and> fold push_ratio rs [] = drop (length rs - 3) rs
   \<and> (\<forall>e t0 t1 inputs s. run e (initial t0 t1) inputs = Inr s \<longrightarrow> length (ratioList s) \<le> 3)
   \<and> mean (push_ratio r w) =
       Inr (of_int (sum_list (push_ratio r w)) / of_nat (length (push_ratio r w)))
   \<and> fold push_ratio [50, 50, 20] [] = [50, 50, 20]
   \<and> mean [50, 50, 20] = Inr 40
   \<and> push_ratio 10 [50, 50, 20] = [50, 20, 10]
   \<and> mean [50, 20, 10] = Inr (80 / 3)
   \<and> round2 (80 / 3) = 26.67"
proof -
  have a: "fold push_ratio rs [] = drop (length rs - 3) rs \<and> length (fold push_ratio rs []) \<le> 3"
    by (simp add: fold_push_ratio)
  have b: "length (ratioList s) \<le> 3" if "run e (initial t0 t1) inputs = Inr s" for e t0 t1 inputs s
    using run_window [OF that] by (simp add: initial_def)
  have c: "fold push_ratio [50, 50, 20] [] = [50, 50, 20]"
    "push_ratio 10 [50, 50, 20] = [50, 20, 10]"
    by (simp_all add: push_ratio_def)
  have d: "mean [50, 50, 20] = Inr 40" "mean [50, 20, 10] = Inr (80 / 3)"
    by (simp_all add: mean_def)
  have e: "round2 (80 / 3) = 26.67"
    by (simp add: round2_def round_half_even_def Let_def)
  from a b c d e mean_push_ratio [of r w] show ?thesis by blast
qed

text \<open>Four frames with ratios 50, 50, 20 and 10 in a fresh session.\<close>

theorem ratio_window_fifo_witness:
  "run offline (initial 0 0) [(0, [eye 5 10]), (1, [eye 5 10]), (2, [eye 2 10]), (3, [eye 1 10])] =
     Inr \<lparr> sessionStartTime = 0, lastMinuteCheck = 0, currentMinuteBlinks = 1,
           ratioList = [50, 20, 10], blinkCounter = 1, counter = 2, color = (0, 200, 0) \<rparr>
   \<and> length [50, 20, 10 :: int] \<le> 3"
  using ratio_window_fifo [of "[]" 0 "[]"]
  by (simp add: frame_eval eye_ratio_eye)




text \<open>
  C9. \<open>saveBlinkDataToFirebase\<close> always returns a value and never leaves by an exception:
  without a Firestore client it returns False, and when the write raises it returns False.
  It reads the client and its arguments only, so the session state a frame ends in is the
  same whatever the client is and whatever the write does.
\<close>

theorem save_absorbs_failures:
  "(\<exists>b. saveBlinkDataToFirebase d u bpm st tot dur = Inr b)
   \<and> saveBlinkDataToFirebase None u bpm st tot dur = Inr False
   \<and> (\<forall>store err. store (blink_document u bpm st tot dur) = Inl err \<longrightarrow>
         saveBlinkDataToFirebase (Some store) u bpm st tot dur = Inr False)
   \<and> (\<forall>e faces now s d'.
         map_sum id state (frame (e\<lparr> db := d \<rparr>) now faces s)
           = map_sum id state (frame (e\<lparr> db := d' \<rparr>) now faces s))"
proof -
  have a: "\<exists>b. saveBlinkDataToFirebase d u bpm st tot dur = Inr b"
    by (rule save_returns)
  have b: "saveBlinkDataToFirebase None u bpm st tot dur = Inr False"
    by (simp add: saveBlinkDataToFirebase_def)
  have c: "saveBlinkDataToFirebase (Some store) u bpm st tot dur = Inr False"
    if "store (blink_document u bpm st tot dur) = Inl err" for store err
    using that by (simp add: saveBlinkDataToFirebase_def)
  have d: "map_sum id state (frame (e\<lparr> db := d \<rparr>) now faces s)
           = map_sum id state (frame (e\<lparr> db := d' \<rparr>) now faces s)" for e faces now s d'
    by (cases faces) (simp_all add: frame_def minute_check_Inr face_update_def Let_def
        split: sum.splits)
  from a b c d show ?thesis by blast
qed

text \<open>The minute record of second 61 handed to a failing store, to no store and to a
  working one; the frame goes on in each case.\<close>

theorem save_absorbs_failures_witness:
  "failing_store (blink_document ''Ann'' 3 TOO_LOW 3 61) = Inl (StoreError ''deadline exceeded'')
   \<and> saveBlinkDataToFirebase (Some failing_store) ''Ann'' 3 TOO_LOW 3 61 = Inr False
   \<and> saveBlinkDataToFirebase None ''Ann'' 3 TOO_LOW 3 61 = Inr False
   \<and> saveBlinkDataToFirebase (Some working_store) ''Ann'' 3 TOO_LOW 3 61 = Inr True
   \<and> frame \<lparr> userName = ''Ann'', db = Some failing_store \<rparr> 61 []
        \<lparr> sessionStartTime = 0, lastMinuteCheck = 0, currentMinuteBlinks = 3,
          ratioList = [40, 40, 40], blinkCounter = 3, counter = 0, color = (255, 0, 255) \<rparr> =
       Inr \<lparr> state = \<lparr> sessionStartTime = 0, lastMinuteCheck = 61, currentMinuteBlinks = 0,
                ratioList = [40, 40, 40], blinkCounter = 3, counter = 0,
                color = (255, 0, 255) \<rparr>,
             persisted = Some \<lparr> sc_userName = ''Ann'', sc_blinksPerMinute = 3,
                sc_status = TOO_LOW, sc_totalBlinks = 3, sc_sessionDuration = 61,
                sc_returned = False \<rparr>,
             display = None \<rparr>"
  using save_absorbs_failures [of "Some failing_store" "''Ann''" 3 TOO_LOW 3 61]
  by (simp add: saveBlinkDataToFirebase_def failing_store_def working_store_def frame_def
      minute_check_Inr getBlinkHealthStatus_def HEALTHY_BLINK_RATE_MIN_def TOO_LOW_def)

end
